theory Spec2Isabelle
  imports Main
begin

section \<open>Directory types (src/directory-config.ts)\<close>

text \<open>
  The remote directory identifiers of the transport library (\<open>SymitarSyncDirectory\<close>)
  and the four directory types of the action. \<open>DIRECTORY_CONFIG\<close> is the constant
  table of the source, one entry per directory type.
\<close>

datatype SymitarSyncDirectory = REPWRITERSPECS | LETTERSPECS | DATAFILES | HELPFILES

datatype DirectoryType = powerOns | letterFiles | dataFiles | helpFiles

record DirectoryTypeConfig =
  name :: string
  symitarDirectory :: SymitarSyncDirectory
  defaultPath :: string
  supportsInstall :: bool

fun DIRECTORY_CONFIG :: "DirectoryType \<Rightarrow> DirectoryTypeConfig" where
  "DIRECTORY_CONFIG powerOns =
     \<lparr>name = ''PowerOns'', symitarDirectory = REPWRITERSPECS,
      defaultPath = ''REPWRITERSPECS/'', supportsInstall = True\<rparr>"
| "DIRECTORY_CONFIG letterFiles =
     \<lparr>name = ''LetterFiles'', symitarDirectory = LETTERSPECS,
      defaultPath = ''LETTERSPECS/'', supportsInstall = False\<rparr>"
| "DIRECTORY_CONFIG dataFiles =
     \<lparr>name = ''DataFiles'', symitarDirectory = DATAFILES,
      defaultPath = ''DATAFILES/'', supportsInstall = False\<rparr>"
| "DIRECTORY_CONFIG helpFiles =
     \<lparr>name = ''HelpFiles'', symitarDirectory = HELPFILES,
      defaultPath = ''HELPFILES/'', supportsInstall = False\<rparr>"

text \<open>
  \<open>getDirectoryConfig\<close> is called by the orchestrator on a value of type
  \<open>DirectoryType\<close>; on that type \<open>isValidDirectoryType\<close> holds, so the lookup is
  the only branch that a typed caller can take.
\<close>

definition getDirectoryConfig :: "DirectoryType \<Rightarrow> DirectoryTypeConfig" where
  "getDirectoryConfig type = DIRECTORY_CONFIG type"

text \<open>
  \<open>getLocalDirectoryPath\<close>: the optional input path is \<open>None\<close> for
  \<open>undefined\<close>; the empty string is falsy in the source and falls through to the
  default as well.
\<close>

definition getLocalDirectoryPath :: "DirectoryType \<Rightarrow> string option \<Rightarrow> string" where
  "getLocalDirectoryPath directoryType inputPath =
     (case inputPath of
        None \<Rightarrow> defaultPath (DIRECTORY_CONFIG directoryType)
      | Some p \<Rightarrow> if p \<noteq> [] then p else defaultPath (DIRECTORY_CONFIG directoryType))"

definition getInstallList :: "DirectoryType \<Rightarrow> string list \<Rightarrow> string list" where
  "getInstallList directoryType installPowerOns =
     (let config = DIRECTORY_CONFIG directoryType
      in if supportsInstall config then installPowerOns else [])"

text \<open>
  The four file lists a transport returns (\<open>SymitarSyncResponse\<close>); the parameter
  of \<open>calculateTotalChanges\<close> has the same four fields.
\<close>

record SymitarSyncResponse =
  deployed :: "string list"
  deleted :: "string list"
  installed :: "string list"
  uninstalled :: "string list"

definition calculateTotalChanges :: "DirectoryType \<Rightarrow> SymitarSyncResponse \<Rightarrow> nat" where
  "calculateTotalChanges directoryType result =
     (let config = DIRECTORY_CONFIG directoryType;
          baseChanges = length (deployed result) + length (deleted result)
      in if supportsInstall config
         then baseChanges + length (installed result) + length (uninstalled result)
         else baseChanges)"

definition resultWithInstall :: SymitarSyncResponse where
  "resultWithInstall =
     \<lparr>deployed = [''A.PO'', ''B.PO''], deleted = [''C.PO''],
      installed = [''A.PO''], uninstalled = [''D.PO'', ''E.PO'']\<rparr>"

section \<open>Values of the run-time\<close>

text \<open>
  Strings are lists of characters. \<open>show_nat\<close> and \<open>show_int\<close> are the decimal
  rendering that a template literal gives an integral number of magnitude below
  \<open>10 ^ 21\<close> (from there on the language switches to exponent notation); every
  port and HTTP status is far below.
\<close>

definition digit_char :: "nat \<Rightarrow> char" where
  "digit_char d = ''0123456789'' ! d"

fun show_nat :: "nat \<Rightarrow> string" where
  "show_nat n = (if n < 10 then [digit_char n] else show_nat (n div 10) @ [digit_char (n mod 10)])"

declare show_nat.simps [simp del]

definition show_int :: "int \<Rightarrow> string" where
  "show_int i = (if i < 0 then ''-'' @ show_nat (nat (- i)) else show_nat (nat i))"

text \<open>
  \<open>String.prototype.trim\<close> removes white space at both ends. Of the white-space
  characters of the language, those that a \<open>char\<close> can hold are listed: tab, line
  feed, vertical tab, form feed, carriage return, space and the no-break space.
\<close>

definition isWhiteSpace :: "char \<Rightarrow> bool" where
  "isWhiteSpace c = (of_char c \<in> {9, 10, 11, 12, 13, 32, 160 :: nat})"

definition trim :: "string \<Rightarrow> string" where
  "trim s = rev (dropWhile isWhiteSpace (rev (dropWhile isWhiteSpace s)))"

text \<open>
  What a \<open>throw\<close> can carry: the two error classes of src/subscription.ts, any other
  \<open>Error\<close> instance (by its message), and a thrown value that is no \<open>Error\<close> at
  all (by its \<open>String(...)\<close> rendering).
\<close>

datatype js_error =
    AuthenticationError string string string
  | ConnectionError string string nat bool "js_error option"
  | Error string
  | NonError string

fun instanceofAuthenticationError :: "js_error \<Rightarrow> bool" where
  "instanceofAuthenticationError (AuthenticationError m k h) = True"
| "instanceofAuthenticationError e = False"

fun instanceofConnectionError :: "js_error \<Rightarrow> bool" where
  "instanceofConnectionError (ConnectionError m h p s orig) = True"
| "instanceofConnectionError e = False"

fun instanceofError :: "js_error \<Rightarrow> bool" where
  "instanceofError (NonError s) = False"
| "instanceofError e = True"

text \<open>\<open>error instanceof Error ? error : new Error(String(error))\<close>\<close>

fun asError :: "js_error \<Rightarrow> js_error" where
  "asError (NonError s) = Error s"
| "asError error = error"

text \<open>The \<open>host\<close> field of the two error classes, for the statements below.\<close>

fun errorHost :: "js_error \<Rightarrow> string option" where
  "errorHost (AuthenticationError m k h) = Some h"
| "errorHost (ConnectionError m h p s orig) = Some h"
| "errorHost e = None"

text \<open>
  A parsed JSON body; an object is the list of its properties, each key once.
\<close>

datatype json_value =
    JNull
  | JBool bool
  | JNumber int
  | JString string
  | JArray "json_value list"
  | JObject "(string \<times> json_value) list"

text \<open>
  A response of \<open>fetch\<close>: \<open>json\<close> is what \<open>await response.json()\<close> gives, a
  rejection or the parsed body.
\<close>

record response =
  ok :: bool
  status :: nat
  statusText :: string
  json :: "js_error + json_value"

section \<open>The licence check (src/subscription.ts)\<close>

definition API_REQUEST_TIMEOUT_MS :: nat where
  "API_REQUEST_TIMEOUT_MS = 30000"

definition MAX_API_RETRIES :: nat where
  "MAX_API_RETRIES = 3"

text \<open>
  The process-wide settings read from the environment, and the network: \<open>fetch env n\<close>
  is the outcome of the request of attempt \<open>n\<close>, a rejection (network error, abort by
  the timer) or a response.
\<close>

record license_env =
  sstStagePrefix :: string
  isSandbox :: bool
  fetch :: "nat \<Rightarrow> js_error + response"

definition url :: "license_env \<Rightarrow> string" where
  "url env = ''https://'' @ sstStagePrefix env @ ''license''
     @ (if isSandbox env then ''.libum-sandbox'' else [])
     @ ''.libum.io/subscriptionsByApiKey?product=poweron-pipelines''"

fun isSubscriptionResponse :: "json_value \<Rightarrow> bool" where
  "isSubscriptionResponse (JObject props) =
     (case map_of props ''isFound'' of
        Some (JBool b) \<Rightarrow>
          (case map_of props ''subscriptions'' of Some (JArray xs) \<Rightarrow> True | _ \<Rightarrow> False)
      | _ \<Rightarrow> False)"
| "isSubscriptionResponse v = False"

fun isFound :: "json_value \<Rightarrow> bool" where
  "isFound (JObject props) = (case map_of props ''isFound'' of Some (JBool b) \<Rightarrow> b | _ \<Rightarrow> False)"
| "isFound v = False"

fun subscriptions :: "json_value \<Rightarrow> json_value list" where
  "subscriptions (JObject props) =
     (case map_of props ''subscriptions'' of Some (JArray xs) \<Rightarrow> xs | _ \<Rightarrow> [])"
| "subscriptions v = []"

text \<open>
  The body of the \<open>try\<close> block of one attempt, given the outcome of its \<open>fetch\<close>:
  \<open>Inl\<close> is the value thrown inside the block, \<open>Inr ()\<close> the \<open>return\<close>.
\<close>

definition tryBlock :: "js_error + response \<Rightarrow> string \<Rightarrow> js_error + unit" where
  "tryBlock fetched apiKey =
     (case fetched of
        Inl e \<Rightarrow> Inl e
      | Inr response \<Rightarrow>
          if \<not> ok response then
            Inl (AuthenticationError
                  (''Failed to validate API key: '' @ show_nat (status response) @ '' ''
                     @ statusText response) apiKey [])
          else
            (case json response of
               Inl e \<Rightarrow> Inl e
             | Inr data \<Rightarrow>
                 if \<not> isSubscriptionResponse data then
                   Inl (AuthenticationError ''Invalid response format from license server'' apiKey [])
                 else if \<not> isFound data then
                   Inl (AuthenticationError
                     ''Provided API key was not found. Please make sure 'apiKey' is set properly in your workflow.''
                     apiKey [])
                 else if length (subscriptions data) = 0 then
                   Inl (AuthenticationError ''No active subscription found for the provided API key.''
                     apiKey [])
                 else Inr ()))"

section \<open>Configuration and observable steps (src/synchronize.ts)\<close>

datatype ConnectionType = https | ssh
datatype SyncMode = push | pull | mirror
datatype SyncMethod = sftp | rsync
datatype SymitarSyncMode = PUSH | PULL | MIRROR
datatype SymitarSyncTransport = SFTP | RSYNC

text \<open>
  \<open>SyncFilesResult\<close> of the part_000 revision: \<open>installed\<close> and \<open>uninstalled\<close>
  may be absent.
\<close>

datatype SyncFilesResult =
  SyncFilesResult (synced: "string list") (sfDeleted: "string list")
    (sfInstalled: "string list option") (sfUninstalled: "string list option")

text \<open>The object literals passed to the transport library.\<close>

datatype symitar_config = SymitarConfig int string string
datatype ssh_config = SshConfig int string string
datatype ssh_host_config = SshHostConfig string int string string
datatype SyncFilesOptions = SyncFilesOptions SymitarSyncTransport int "string list" "string list"

text \<open>
  The calls a run makes on the outside world, in order, with their arguments. Log
  lines (\<open>console\<close>, \<open>core.info\<close>) are output only and are not recorded.
\<close>

datatype event =
    SetTimeout nat
  | Fetch string string
  | ClearTimeout
  | Delay nat
  | NewSymitarHTTPs string symitar_config string ssh_config
  | NewSymitarSSH ssh_host_config string
  | HTTPsSynchronizeFiles string "string list" bool SymitarSyncDirectory SymitarSyncMode "string list"
  | SSHSynchronizeFiles symitar_config string "string list" bool SymitarSyncDirectory
      SymitarSyncMode "string list"
  | HTTPsSyncFiles string SymitarSyncDirectory SymitarSyncMode SyncFilesOptions bool
  | SSHSyncFiles symitar_config string SymitarSyncDirectory SymitarSyncMode SyncFilesOptions bool
  | ClientEnd

fun isFetch :: "event \<Rightarrow> bool" where
  "isFetch (Fetch u k) = True"
| "isFetch e = False"

fun isClientConstruction :: "event \<Rightarrow> bool" where
  "isClientConstruction (NewSymitarHTTPs b c l s) = True"
| "isClientConstruction (NewSymitarSSH c l) = True"
| "isClientConstruction e = False"

fun isClientEnd :: "event \<Rightarrow> bool" where
  "isClientEnd ClientEnd = True"
| "isClientEnd e = False"

section \<open>The retry loop of \<open>validateApiKey\<close>\<close>

text \<open>
  One iteration of the \<open>for\<close> loop per call, from \<open>attempt\<close> on. The timer of the
  \<open>AbortController\<close> is armed before the request and cleared in the \<open>finally\<close>
  block, which runs after the \<open>catch\<close> block and so after the back-off wait. The
  result is the thrown value or the normal return, with the calls made.
\<close>

function validateLoop :: "license_env \<Rightarrow> string \<Rightarrow> nat \<Rightarrow> (js_error + unit) \<times> event list" where
  "validateLoop env apiKey attempt =
     (if attempt \<le> MAX_API_RETRIES then
        (case tryBlock (fetch env attempt) apiKey of
           Inr u \<Rightarrow>
             (Inr (), [SetTimeout API_REQUEST_TIMEOUT_MS, Fetch (url env) apiKey, ClearTimeout])
         | Inl error \<Rightarrow>
             if instanceofAuthenticationError error \<or> instanceofConnectionError error
                \<or> attempt \<ge> MAX_API_RETRIES
             then
               (Inl (if instanceofAuthenticationError error \<or> instanceofConnectionError error
                     then error
                     else ConnectionError
                       ''Failed to fetch PowerOn Pipelines API key subscription data after multiple attempts''
                       (''license'' @ (if isSandbox env then ''.libum-sandbox'' else []) @ ''.libum.io'')
                       443 True (Some (asError error))),
                [SetTimeout API_REQUEST_TIMEOUT_MS, Fetch (url env) apiKey, ClearTimeout])
             else
               (let delay = min (500 * 2 ^ (attempt - 1)) 10000;
                    rest = validateLoop env apiKey (attempt + 1)
                in (fst rest,
                    [SetTimeout API_REQUEST_TIMEOUT_MS, Fetch (url env) apiKey, Delay delay, ClearTimeout]
                      @ snd rest)))
      else (Inr (), []))"
  by pat_completeness auto
termination
  by (relation "measure (\<lambda>(env, apiKey, attempt). MAX_API_RETRIES + 1 - attempt)") auto

declare validateLoop.simps [simp del]

definition validateApiKey :: "license_env \<Rightarrow> string \<Rightarrow> (js_error + unit) \<times> event list" where
  "validateApiKey env apiKey =
     (if apiKey = [] \<or> trim apiKey = [] then
        (Inl (AuthenticationError ''PowerOn Pipelines API Key is missing'' apiKey []), [])
      else validateLoop env apiKey 1)"

section \<open>The orchestrator (src/synchronize.ts)\<close>

text \<open>
  \<open>SynchronizeConfig\<close> as src/unnamed/part_001 declares it (\<open>logPrefix\<close> only feeds
  log lines and is left out); \<open>symitarAppPort\<close> is optional. Numbers are integers,
  as \<open>parseInt\<close> in src/main.ts produces them. The revision of the file in
  src/unnamed/part_000 adds two fields.
\<close>

record SynchronizeConfig =
  symitarHostname :: string
  symNumber :: int
  symitarUserNumber :: string
  symitarUserPassword :: string
  sshUsername :: string
  sshPassword :: string
  sshPort :: int
  symitarAppPort :: "int option"
  apiKey :: string
  localDirectoryPath :: string
  directoryType :: DirectoryType
  connectionType :: ConnectionType
  syncMode :: SyncMode
  isDryRun :: bool
  installPowerOnList :: "string list"
  validateIgnoreList :: "string list"
  debug :: bool

record SynchronizeConfig_000 = SynchronizeConfig +
  syncMethod :: SyncMethod
  sftpConcurrency :: int

record SynchronizeResult =
  filesDeployed :: nat
  filesDeleted :: nat
  filesInstalled :: nat
  filesUninstalled :: nat
  deployedFiles :: "string list"
  deletedFiles :: "string list"
  installedFiles :: "string list"
  uninstalledFiles :: "string list"

fun getSyncMode :: "SyncMode \<Rightarrow> SymitarSyncMode" where
  "getSyncMode push = PUSH"
| "getSyncMode pull = PULL"
| "getSyncMode mirror = MIRROR"

fun getSyncTransport :: "SyncMethod \<Rightarrow> SymitarSyncTransport" where
  "getSyncTransport sftp = SFTP"
| "getSyncTransport rsync = RSYNC"

text \<open>
  What the transport client of a run does when called: \<open>isReady\<close> is the readiness
  promise of the SSH client (\<open>None\<close>: it resolves), \<open>syncOutcome\<close> what the
  synchronize call of the client gives (a rejection or the file lists), \<open>endOutcome\<close>
  what \<open>client.end()\<close> gives (\<open>None\<close>: it resolves). The constructors return a
  client.
\<close>

record 'r transport =
  isReady :: "js_error option"
  syncOutcome :: "js_error + 'r"
  endOutcome :: "js_error option"

text \<open>
  \<open>try { body } finally { fin }\<close>: the \<open>finally\<close> block runs after the body
  whether the body returned or threw; when the \<open>finally\<close> block itself throws, that
  value is what the statement throws, otherwise the completion of the body stands.
\<close>

definition tryFinally ::
  "('e + 'a) \<times> event list \<Rightarrow> 'e option \<times> event list \<Rightarrow> ('e + 'a) \<times> event list" where
  "tryFinally body fin =
     ((case fst fin of None \<Rightarrow> fst body | Some e \<Rightarrow> Inl e), snd body @ snd fin)"

subsection \<open>src/unnamed/part_001\<close>

definition synchronizeViaHTTPs ::
  "SymitarSyncResponse transport \<Rightarrow> 'a SynchronizeConfig_scheme \<Rightarrow> SymitarSyncDirectory
     \<Rightarrow> SymitarSyncMode \<Rightarrow> string list \<Rightarrow> (js_error + SymitarSyncResponse) \<times> event list" where
  "synchronizeViaHTTPs w config directory mode installList =
     (case symitarAppPort config of
        None \<Rightarrow> (Inl (Error ''symitar-app-port is required when using HTTPS connection''), [])
      | Some port \<Rightarrow>
          if port = 0 then
            (Inl (Error ''symitar-app-port is required when using HTTPS connection''), [])
          else
            (let baseUrl = ''https://'' @ symitarHostname config @ '':'' @ show_int port;
                 symitarConfig = SymitarConfig (symNumber config) (symitarUserNumber config)
                   (symitarUserPassword config);
                 sshConfig = SshConfig (sshPort config) (sshUsername config) (sshPassword config);
                 client = [NewSymitarHTTPs baseUrl symitarConfig
                             (if debug config then ''debug'' else ''info'') sshConfig];
                 r = tryFinally
                       (syncOutcome w,
                        [HTTPsSynchronizeFiles (localDirectoryPath config) installList
                           (isDryRun config) directory mode (validateIgnoreList config)])
                       (endOutcome w, [ClientEnd])
             in (fst r, client @ snd r)))"

definition synchronizeViaSSH ::
  "SymitarSyncResponse transport \<Rightarrow> 'a SynchronizeConfig_scheme \<Rightarrow> SymitarSyncDirectory
     \<Rightarrow> SymitarSyncMode \<Rightarrow> string list \<Rightarrow> (js_error + SymitarSyncResponse) \<times> event list" where
  "synchronizeViaSSH w config directory mode installList =
     (let client = [NewSymitarSSH
                      (SshHostConfig (symitarHostname config) (sshPort config) (sshUsername config)
                         (sshPassword config))
                      (if debug config then ''debug'' else ''info'')];
          r = tryFinally
                (case isReady w of
                   Some e \<Rightarrow> (Inl e, [])
                 | None \<Rightarrow>
                     (let symitarConfig = SymitarConfig (symNumber config) (symitarUserNumber config)
                            (symitarUserPassword config)
                      in (syncOutcome w,
                          [SSHSynchronizeFiles symitarConfig (localDirectoryPath config) installList
                             (isDryRun config) directory mode (validateIgnoreList config)])))
                (endOutcome w, [ClientEnd])
      in (fst r, client @ snd r))"

definition synchronizeToSymitar ::
  "license_env \<Rightarrow> SymitarSyncResponse transport \<Rightarrow> 'a SynchronizeConfig_scheme
     \<Rightarrow> (js_error + SynchronizeResult) \<times> event list" where
  "synchronizeToSymitar env w config =
     (let validated = validateApiKey env (apiKey config)
      in case fst validated of
           Inl e \<Rightarrow> (Inl e, snd validated)
         | Inr u \<Rightarrow>
             (let directoryConfig = getDirectoryConfig (directoryType config);
                  installList = getInstallList (directoryType config) (installPowerOnList config);
                  mode = getSyncMode (syncMode config);
                  called =
                    (if connectionType config = https
                     then synchronizeViaHTTPs w config (symitarDirectory directoryConfig) mode installList
                     else synchronizeViaSSH w config (symitarDirectory directoryConfig) mode installList)
              in case fst called of
                   Inl e \<Rightarrow> (Inl e, snd validated @ snd called)
                 | Inr result \<Rightarrow>
                     (Inr \<lparr>filesDeployed = length (deployed result),
                           filesDeleted = length (deleted result),
                           filesInstalled = length (installed result),
                           filesUninstalled = length (uninstalled result),
                           deployedFiles = deployed result,
                           deletedFiles = deleted result,
                           installedFiles = installed result,
                           uninstalledFiles = uninstalled result\<rparr>,
                      snd validated @ snd called)))"

subsection \<open>src/unnamed/part_000\<close>

definition synchronizeViaHTTPs_000 ::
  "SyncFilesResult transport \<Rightarrow> 'a SynchronizeConfig_scheme \<Rightarrow> SymitarSyncDirectory
     \<Rightarrow> SymitarSyncMode \<Rightarrow> SyncFilesOptions \<Rightarrow> (js_error + SyncFilesResult) \<times> event list" where
  "synchronizeViaHTTPs_000 w config directory mode syncOptions =
     (case symitarAppPort config of
        None \<Rightarrow> (Inl (Error ''symitar-app-port is required when using HTTPS connection''), [])
      | Some port \<Rightarrow>
          if port = 0 then
            (Inl (Error ''symitar-app-port is required when using HTTPS connection''), [])
          else
            (let baseUrl = ''https://'' @ symitarHostname config @ '':'' @ show_int port;
                 symitarConfig = SymitarConfig (symNumber config) (symitarUserNumber config)
                   (symitarUserPassword config);
                 sshConfig = SshConfig (sshPort config) (sshUsername config) (sshPassword config);
                 logLevel = (if debug config then ''debug'' else ''warn'');
                 client = [NewSymitarHTTPs baseUrl symitarConfig logLevel sshConfig];
                 r = tryFinally
                       (syncOutcome w,
                        [HTTPsSyncFiles (localDirectoryPath config) directory mode syncOptions
                           (isDryRun config)])
                       (endOutcome w, [ClientEnd])
             in (fst r, client @ snd r)))"

definition synchronizeViaSSH_000 ::
  "SyncFilesResult transport \<Rightarrow> 'a SynchronizeConfig_scheme \<Rightarrow> SymitarSyncDirectory
     \<Rightarrow> SymitarSyncMode \<Rightarrow> SyncFilesOptions \<Rightarrow> (js_error + SyncFilesResult) \<times> event list" where
  "synchronizeViaSSH_000 w config directory mode syncOptions =
     (let logLevel = (if debug config then ''debug'' else ''warn'');
          client = [NewSymitarSSH
                      (SshHostConfig (symitarHostname config) (sshPort config) (sshUsername config)
                         (sshPassword config))
                      logLevel];
          r = tryFinally
                (case isReady w of
                   Some e \<Rightarrow> (Inl e, [])
                 | None \<Rightarrow>
                     (let symitarConfig = SymitarConfig (symNumber config) (symitarUserNumber config)
                            (symitarUserPassword config)
                      in (syncOutcome w,
                          [SSHSyncFiles symitarConfig (localDirectoryPath config) directory mode
                             syncOptions (isDryRun config)])))
                (endOutcome w, [ClientEnd])
      in (fst r, client @ snd r))"

definition synchronizeToSymitar_000 ::
  "license_env \<Rightarrow> SyncFilesResult transport \<Rightarrow> SynchronizeConfig_000
     \<Rightarrow> (js_error + SynchronizeResult) \<times> event list" where
  "synchronizeToSymitar_000 env w config =
     (let validated = validateApiKey env (apiKey config)
      in case fst validated of
           Inl e \<Rightarrow> (Inl e, snd validated)
         | Inr u \<Rightarrow>
             (let directoryConfig = getDirectoryConfig (directoryType config);
                  installList = getInstallList (directoryType config) (installPowerOnList config);
                  mode = getSyncMode (syncMode config);
                  syncTransport = getSyncTransport (syncMethod config);
                  syncOptions = SyncFilesOptions syncTransport (sftpConcurrency config) installList
                    (validateIgnoreList config);
                  called =
                    (if connectionType config = https
                     then synchronizeViaHTTPs_000 w config (symitarDirectory directoryConfig) mode syncOptions
                     else synchronizeViaSSH_000 w config (symitarDirectory directoryConfig) mode syncOptions)
              in case fst called of
                   Inl e \<Rightarrow> (Inl e, snd validated @ snd called)
                 | Inr result \<Rightarrow>
                     (Inr \<lparr>filesDeployed = length (synced result),
                           filesDeleted = length (sfDeleted result),
                           filesInstalled = (case sfInstalled result of Some xs \<Rightarrow> length xs | None \<Rightarrow> 0),
                           filesUninstalled = (case sfUninstalled result of Some xs \<Rightarrow> length xs | None \<Rightarrow> 0),
                           deployedFiles = synced result,
                           deletedFiles = sfDeleted result,
                           installedFiles = (case sfInstalled result of Some xs \<Rightarrow> xs | None \<Rightarrow> []),
                           uninstalledFiles = (case sfUninstalled result of Some xs \<Rightarrow> xs | None \<Rightarrow> [])\<rparr>,
                      snd validated @ snd called)))"

section \<open>Notions used in the statements\<close>

text \<open>
  A failure of an attempt that the loop retries: a thrown value that is neither an
  \<open>AuthenticationError\<close> nor a \<open>ConnectionError\<close>.
\<close>

fun retryable :: "js_error + unit \<Rightarrow> bool" where
  "retryable (Inl e) = (\<not> instanceofAuthenticationError e \<and> \<not> instanceofConnectionError e)"
| "retryable (Inr u) = False"

text \<open>The back-off waits of a run, in order.\<close>

fun delays :: "event list \<Rightarrow> nat list" where
  "delays [] = []"
| "delays (Delay d # evs) = d # delays evs"
| "delays (ev # evs) = delays evs"

text \<open>The host part of an \<open>https\<close> URL: what stands between the scheme and the path.\<close>

definition urlHost :: "string \<Rightarrow> string" where
  "urlHost u = takeWhile (\<lambda>c. c \<noteq> CHR ''/'') (drop (length ''https://'') u)"

text \<open>
  The completion of the body of the \<open>try\<close> block of the transport call: for SSH the
  readiness promise is awaited first, and its rejection is the completion.
\<close>

definition tryCompletion :: "'r transport \<Rightarrow> ConnectionType \<Rightarrow> js_error + 'r" where
  "tryCompletion w conn =
     (if conn = https then syncOutcome w
      else (case isReady w of Some e \<Rightarrow> Inl e | None \<Rightarrow> syncOutcome w))"

text \<open>
  The object that \<open>synchronizeToSymitar\<close> builds from the file lists of the transport,
  in each revision.
\<close>

definition resultOf :: "SymitarSyncResponse \<Rightarrow> SynchronizeResult" where
  "resultOf out =
     \<lparr>filesDeployed = length (deployed out), filesDeleted = length (deleted out),
      filesInstalled = length (installed out), filesUninstalled = length (uninstalled out),
      deployedFiles = deployed out, deletedFiles = deleted out,
      installedFiles = installed out, uninstalledFiles = uninstalled out\<rparr>"

definition resultOf_000 :: "SyncFilesResult \<Rightarrow> SynchronizeResult" where
  "resultOf_000 out =
     \<lparr>filesDeployed = length (synced out), filesDeleted = length (sfDeleted out),
      filesInstalled = length (case sfInstalled out of Some xs \<Rightarrow> xs | None \<Rightarrow> []),
      filesUninstalled = length (case sfUninstalled out of Some xs \<Rightarrow> xs | None \<Rightarrow> []),
      deployedFiles = synced out, deletedFiles = sfDeleted out,
      installedFiles = (case sfInstalled out of Some xs \<Rightarrow> xs | None \<Rightarrow> []),
      uninstalledFiles = (case sfUninstalled out of Some xs \<Rightarrow> xs | None \<Rightarrow> [])\<rparr>"

text \<open>The four file lists of a result, as \<open>calculateTotalChanges\<close> takes them.\<close>

definition listsOf :: "SynchronizeResult \<Rightarrow> SymitarSyncResponse" where
  "listsOf r = \<lparr>deployed = deployedFiles r, deleted = deletedFiles r,
     installed = installedFiles r, uninstalled = uninstalledFiles r\<rparr>"

text \<open>What the caller sees of a transport call once the \<open>finally\<close> block has run.\<close>

definition afterTeardown :: "'r transport \<Rightarrow> ConnectionType \<Rightarrow> js_error + 'r" where
  "afterTeardown w conn =
     (case endOutcome w of None \<Rightarrow> tryCompletion w conn | Some e \<Rightarrow> Inl e)"

section \<open>Concrete runs\<close>

text \<open>The fixtures of the test suites, and a few worlds around them.\<close>

definition activeBody :: json_value where
  "activeBody = JObject [(''isFound'', JBool True),
     (''subscriptions'', JArray [JObject [(''id'', JString ''123''), (''status'', JString ''active'')]])]"

definition envValid :: license_env where
  "envValid = \<lparr>sstStagePrefix = [], isSandbox = False,
     fetch = (\<lambda>n. Inr \<lparr>ok = True, status = 200, statusText = ''OK'', json = Inr activeBody\<rparr>)\<rparr>"

definition envNetworkDown :: license_env where
  "envNetworkDown = \<lparr>sstStagePrefix = [], isSandbox = False,
     fetch = (\<lambda>n. Inl (Error ''Network error''))\<rparr>"

definition envStaged :: license_env where
  "envStaged = \<lparr>sstStagePrefix = ''dev-'', isSandbox = False,
     fetch = (\<lambda>n. Inl (Error ''Network error''))\<rparr>"

definition unauthorized :: response where
  "unauthorized = \<lparr>ok = False, status = 401, statusText = ''Unauthorized'',
     json = Inl (Error ''Unexpected end of JSON input'')\<rparr>"

definition env401 :: license_env where
  "env401 = \<lparr>sstStagePrefix = [], isSandbox = False, fetch = (\<lambda>n. Inr unauthorized)\<rparr>"

definition envFlaky401 :: license_env where
  "envFlaky401 = \<lparr>sstStagePrefix = [], isSandbox = False,
     fetch = (\<lambda>n. if n = 1 then Inl (Error ''Network error'') else Inr unauthorized)\<rparr>"

definition envFlakyValid :: license_env where
  "envFlakyValid = \<lparr>sstStagePrefix = [], isSandbox = False,
     fetch = (\<lambda>n. if n \<le> 2 then Inl (Error ''Network error'')
                   else Inr \<lparr>ok = True, status = 200, statusText = ''OK'', json = Inr activeBody\<rparr>)\<rparr>"

definition defaultConfig :: SynchronizeConfig where
  "defaultConfig =
     \<lparr>symitarHostname = ''symitar.example.com'', symNumber = 627, symitarUserNumber = ''1'',
      symitarUserPassword = ''questpass'', sshUsername = ''testuser'', sshPassword = ''testpass'',
      sshPort = 22, symitarAppPort = None, apiKey = ''test-api-key'',
      localDirectoryPath = ''./powerons/'', directoryType = powerOns, connectionType = ssh,
      syncMode = push, isDryRun = False, installPowerOnList = [''FILE1.PO''],
      validateIgnoreList = [], debug = False\<rparr>"

definition httpsConfig :: SynchronizeConfig where
  "httpsConfig = defaultConfig\<lparr>connectionType := https, symitarAppPort := Some 42627\<rparr>"

definition configWithoutPort :: SynchronizeConfig where
  "configWithoutPort = defaultConfig\<lparr>connectionType := https, symitarAppPort := None\<rparr>"

definition configWithoutPortOrKey :: SynchronizeConfig where
  "configWithoutPortOrKey = configWithoutPort\<lparr>apiKey := []\<rparr>"

definition letterFilesConfig :: SynchronizeConfig where
  "letterFilesConfig = defaultConfig\<lparr>directoryType := letterFiles,
     localDirectoryPath := ''LETTERSPECS/''\<rparr>"

definition defaultConfig_000 :: SynchronizeConfig_000 where
  "defaultConfig_000 = SynchronizeConfig.extend defaultConfig
     (SynchronizeConfig_000.fields sftp 5)"

definition httpsConfig_000 :: SynchronizeConfig_000 where
  "httpsConfig_000 = defaultConfig_000\<lparr>connectionType := https, symitarAppPort := Some 42627\<rparr>"

definition configWithoutPort_000 :: SynchronizeConfig_000 where
  "configWithoutPort_000 = defaultConfig_000\<lparr>connectionType := https, symitarAppPort := None\<rparr>"

definition defaultSyncResult :: SymitarSyncResponse where
  "defaultSyncResult = \<lparr>deployed = [''FILE1.PO'', ''FILE2.PO''], deleted = [''OLD.PO''],
     installed = [''FILE1.PO''], uninstalled = []\<rparr>"

definition defaultSyncResult_000 :: SyncFilesResult where
  "defaultSyncResult_000 =
     SyncFilesResult [''FILE1.PO'', ''FILE2.PO''] [''OLD.PO''] (Some [''FILE1.PO'']) None"

definition transportOk :: "SymitarSyncResponse transport" where
  "transportOk = \<lparr>isReady = None, syncOutcome = Inr defaultSyncResult, endOutcome = None\<rparr>"

definition transportSyncFails :: "SymitarSyncResponse transport" where
  "transportSyncFails = \<lparr>isReady = None, syncOutcome = Inl (Error ''Sync failed''),
     endOutcome = None\<rparr>"

definition transportEndFails :: "SymitarSyncResponse transport" where
  "transportEndFails = \<lparr>isReady = None, syncOutcome = Inr defaultSyncResult,
     endOutcome = Some (Error ''Connection already closed'')\<rparr>"

definition transportWithInstall :: "SymitarSyncResponse transport" where
  "transportWithInstall = \<lparr>isReady = None, syncOutcome = Inr resultWithInstall,
     endOutcome = None\<rparr>"

definition transportOk_000 :: "SyncFilesResult transport" where
  "transportOk_000 = \<lparr>isReady = None, syncOutcome = Inr defaultSyncResult_000,
     endOutcome = None\<rparr>"

definition transportEndFails_000 :: "SyncFilesResult transport" where
  "transportEndFails_000 = \<lparr>isReady = None, syncOutcome = Inl (Error ''Sync failed''),
     endOutcome = Some (Error ''Connection already closed'')\<rparr>"

section \<open>Properties of the directory registry\<close>

lemma supportsInstall_iff: "supportsInstall (DIRECTORY_CONFIG t) \<longleftrightarrow> t = powerOns"
  by (cases t) simp_all


text \<open>
  Claim C8. For every directory type and every four file lists, the total of
  \<open>calculateTotalChanges\<close> is the number of deployed files plus the number of deleted
  files, plus the numbers of installed and uninstalled files exactly when the type
  supports install, which only \<open>powerOns\<close> does. For the lists
  deployed A, B; deleted C; installed A; uninstalled D, E the total is 6 for
  \<open>powerOns\<close> and 3 for each of the three other types.
\<close>

theorem calculateTotalChanges_total:
  "calculateTotalChanges t r =
     length (deployed r) + length (deleted r)
       + (if supportsInstall (DIRECTORY_CONFIG t)
          then length (installed r) + length (uninstalled r) else 0)
   \<and> (supportsInstall (DIRECTORY_CONFIG t) \<longleftrightarrow> t = powerOns)
   \<and> calculateTotalChanges powerOns resultWithInstall = 6
   \<and> calculateTotalChanges letterFiles resultWithInstall = 3
   \<and> calculateTotalChanges dataFiles resultWithInstall = 3
   \<and> calculateTotalChanges helpFiles resultWithInstall = 3"
  by (simp add: calculateTotalChanges_def Let_def supportsInstall_iff resultWithInstall_def)

text \<open>
  Claim C9. \<open>getInstallList\<close> returns the requested list unchanged for \<open>powerOns\<close>,
  the one type that supports install, and the empty list for every other type,
  whatever the requested list holds; it has no failing branch, so a list supplied for
  another type is dropped, not rejected.
\<close>

theorem getInstallList_override:
  "getInstallList t requested =
     (if supportsInstall (DIRECTORY_CONFIG t) then requested else [])
   \<and> (supportsInstall (DIRECTORY_CONFIG t) \<longleftrightarrow> t = powerOns)
   \<and> getInstallList powerOns requested = requested
   \<and> getInstallList letterFiles requested = []
   \<and> getInstallList dataFiles requested = []
   \<and> getInstallList helpFiles requested = []"
  by (simp add: getInstallList_def Let_def supportsInstall_iff)

section \<open>Properties of the licence check\<close>

lemma trim_blank:
  assumes "\<forall>c\<in>set key. isWhiteSpace c"
  shows "trim key = []"
proof -
  from assms have d: "dropWhile isWhiteSpace key = []"
    by simp
  show ?thesis unfolding trim_def d by simp
qed

lemma dropWhile_keeps:
  assumes "x \<in> set xs" and "\<not> P x"
  shows "\<exists>y\<in>set (dropWhile P xs). \<not> P y"
proof -
  from assms have ne: "dropWhile P xs \<noteq> []"
    by auto
  then have "\<not> P (hd (dropWhile P xs))" by (rule hd_dropWhile)
  moreover from ne have "hd (dropWhile P xs) \<in> set (dropWhile P xs)" by simp
  ultimately show ?thesis by blast
qed

lemma trim_nonblank:
  assumes "c \<in> set key" and "\<not> isWhiteSpace c"
  shows "key \<noteq> [] \<and> trim key \<noteq> []"
proof -
  from dropWhile_keeps [of c key isWhiteSpace, OF assms]
  obtain y where y: "y \<in> set (dropWhile isWhiteSpace key)" "\<not> isWhiteSpace y" ..
  then have "y \<in> set (rev (dropWhile isWhiteSpace key))" by simp
  with y(2) have "\<not> (\<forall>x\<in>set (rev (dropWhile isWhiteSpace key)). isWhiteSpace x)"
    by blast
  then have "dropWhile isWhiteSpace (rev (dropWhile isWhiteSpace key)) \<noteq> []"
    by (simp only: dropWhile_eq_Nil_conv not_False_eq_True)
  with assms(1) show ?thesis by (auto simp add: trim_def)
qed

lemma validateLoop_return:
  assumes "attempt \<le> MAX_API_RETRIES" and "tryBlock (fetch env attempt) key = Inr u"
  shows "validateLoop env key attempt =
    (Inr (), [SetTimeout API_REQUEST_TIMEOUT_MS, Fetch (url env) key, ClearTimeout])"
  using assms by (simp add: validateLoop.simps [of env key attempt])

lemma validateLoop_rethrow:
  assumes "attempt \<le> MAX_API_RETRIES" and "tryBlock (fetch env attempt) key = Inl e"
    and "instanceofAuthenticationError e \<or> instanceofConnectionError e"
  shows "validateLoop env key attempt =
    (Inl e, [SetTimeout API_REQUEST_TIMEOUT_MS, Fetch (url env) key, ClearTimeout])"
  using assms by (auto simp add: validateLoop.simps [of env key attempt])

lemma validateLoop_exhausted:
  assumes "tryBlock (fetch env MAX_API_RETRIES) key = Inl e"
    and "\<not> instanceofAuthenticationError e" and "\<not> instanceofConnectionError e"
  shows "validateLoop env key MAX_API_RETRIES =
    (Inl (ConnectionError
            ''Failed to fetch PowerOn Pipelines API key subscription data after multiple attempts''
            (''license'' @ (if isSandbox env then ''.libum-sandbox'' else []) @ ''.libum.io'')
            443 True (Some (asError e))),
     [SetTimeout API_REQUEST_TIMEOUT_MS, Fetch (url env) key, ClearTimeout])"
  using assms by (simp add: validateLoop.simps [of env key MAX_API_RETRIES])

lemma validateLoop_retry:
  assumes "attempt < MAX_API_RETRIES" and "tryBlock (fetch env attempt) key = Inl e"
    and "\<not> instanceofAuthenticationError e" and "\<not> instanceofConnectionError e"
  shows "validateLoop env key attempt =
    (fst (validateLoop env key (attempt + 1)),
     [SetTimeout API_REQUEST_TIMEOUT_MS, Fetch (url env) key,
      Delay (min (500 * 2 ^ (attempt - 1)) 10000), ClearTimeout]
       @ snd (validateLoop env key (attempt + 1)))"
  using assms by (simp add: validateLoop.simps [of env key attempt] Let_def)

lemma validateLoop_no_client:
  "filter isClientConstruction (snd (validateLoop env key attempt)) = [] \<and>
   filter isClientEnd (snd (validateLoop env key attempt)) = []"
proof (induction env key attempt rule: validateLoop.induct)
  case (1 env key attempt)
  show ?case
  proof (cases "attempt \<le> MAX_API_RETRIES")
    case False
    then show ?thesis by (simp add: validateLoop.simps [of env key attempt])
  next
    case le: True
    show ?thesis
    proof (cases "tryBlock (fetch env attempt) key")
      case (Inr u)
      with le show ?thesis by (simp add: validateLoop.simps [of env key attempt])
    next
      case (Inl e)
      show ?thesis
      proof (cases "instanceofAuthenticationError e \<or> instanceofConnectionError e
                     \<or> attempt \<ge> MAX_API_RETRIES")
        case True
        with le Inl show ?thesis by (simp add: validateLoop.simps [of env key attempt])
      next
        case False
        with le Inl "1.IH" [of e] show ?thesis
          by (simp add: validateLoop.simps [of env key attempt] Let_def)
      qed
    qed
  qed
qed

lemma validateApiKey_no_client:
  "filter isClientConstruction (snd (validateApiKey env key)) = [] \<and>
   filter isClientEnd (snd (validateApiKey env key)) = []"
  by (simp add: validateApiKey_def validateLoop_no_client)

lemma validateApiKey_loop:
  assumes "c \<in> set key" and "\<not> isWhiteSpace c"
  shows "validateApiKey env key = validateLoop env key 1"
  using trim_nonblank [OF assms] by (simp add: validateApiKey_def)

text \<open>
  Claim C5. For every API key that is empty or made of white space only,
  \<open>validateApiKey\<close> throws the \<open>AuthenticationError\<close> that carries the key as given
  and the empty host, and makes no call at all: no request, no wait.
\<close>

theorem validateApiKey_blank_key:
  assumes "\<forall>c\<in>set key. isWhiteSpace c"
  shows "validateApiKey env key =
           (Inl (AuthenticationError ''PowerOn Pipelines API Key is missing'' key []), [])"
  using trim_blank [OF assms] by (simp add: validateApiKey_def)

theorem validateApiKey_blank_key_witness:
  "validateApiKey envValid [] =
     (Inl (AuthenticationError ''PowerOn Pipelines API Key is missing'' [] []), []) \<and>
   validateApiKey envValid ''   '' =
     (Inl (AuthenticationError ''PowerOn Pipelines API Key is missing'' ''   '' []), []) \<and>
   filter isFetch (snd (validateApiKey envValid ''   '')) = []"
proof -
  have a: "\<forall>c\<in>set ([] :: string). isWhiteSpace c" by simp
  have b: "\<forall>c\<in>set ''   ''. isWhiteSpace c" by (simp add: isWhiteSpace_def)
  show ?thesis
    using validateApiKey_blank_key [OF a, of envValid] validateApiKey_blank_key [OF b, of envValid]
    by simp
qed


lemma delays_append: "delays (xs @ ys) = delays xs @ delays ys"
  by (induction xs rule: delays.induct) simp_all

lemma retryableE:
  assumes "retryable r"
  obtains e where "r = Inl e" "\<not> instanceofAuthenticationError e" "\<not> instanceofConnectionError e"
  using assms by (cases r) simp_all

lemma validateLoop_head:
  assumes "attempt \<le> MAX_API_RETRIES"
  shows "take 2 (snd (validateLoop env key attempt)) =
           [SetTimeout API_REQUEST_TIMEOUT_MS, Fetch (url env) key]"
  using assms
  by (simp add: validateLoop.simps [of env key attempt] Let_def split: sum.split)

lemma validateLoop_retry_from:
  assumes "attempt < MAX_API_RETRIES" and "retryable (tryBlock (fetch env attempt) key)"
  shows "validateLoop env key attempt =
    (fst (validateLoop env key (attempt + 1)),
     [SetTimeout API_REQUEST_TIMEOUT_MS, Fetch (url env) key,
      Delay (min (500 * 2 ^ (attempt - 1)) 10000), ClearTimeout]
       @ snd (validateLoop env key (attempt + 1)))"
proof -
  from assms(2) obtain e where "tryBlock (fetch env attempt) key = Inl e"
    "\<not> instanceofAuthenticationError e" "\<not> instanceofConnectionError e"
    by (rule retryableE)
  with assms(1) show ?thesis by (rule validateLoop_retry)
qed

lemma tryBlock_not_ok:
  assumes "fetch env n = Inr resp" and "\<not> ok resp"
  shows "tryBlock (fetch env n) key =
    Inl (AuthenticationError
          (''Failed to validate API key: '' @ show_nat (status resp) @ '' '' @ statusText resp)
          key [])"
  using assms by (simp add: tryBlock_def)

text \<open>
  The run of \<open>validateApiKey\<close> when every attempt fails with a retryable failure.
  For every key that is not blank it makes exactly three requests, waits 500 ms and
  1000 ms between them, and throws a \<open>ConnectionError\<close> (not an
  \<open>AuthenticationError\<close>) with port 443, the secure flag set, and the failure of the
  third attempt (as it is when it is an \<open>Error\<close> instance). The throw site builds
  the host anew as \<open>license[.libum-sandbox].libum.io\<close>: it follows the sandbox
  setting of the request URL and leaves out the stage prefix that the URL has.
\<close>

theorem validateApiKey_retries_exhausted:
  assumes "\<exists>c\<in>set key. \<not> isWhiteSpace c"
    and "\<forall>n\<in>{1..MAX_API_RETRIES}. retryable (tryBlock (fetch env n) key)"
    and "tryBlock (fetch env MAX_API_RETRIES) key = Inl lastFailure"
  shows "validateApiKey env key =
           (Inl (ConnectionError
                   ''Failed to fetch PowerOn Pipelines API key subscription data after multiple attempts''
                   (''license'' @ (if isSandbox env then ''.libum-sandbox'' else []) @ ''.libum.io'')
                   443 True (Some (asError lastFailure))),
            [SetTimeout API_REQUEST_TIMEOUT_MS, Fetch (url env) key, Delay 500, ClearTimeout,
             SetTimeout API_REQUEST_TIMEOUT_MS, Fetch (url env) key, Delay 1000, ClearTimeout,
             SetTimeout API_REQUEST_TIMEOUT_MS, Fetch (url env) key, ClearTimeout])
         \<and> length (filter isFetch (snd (validateApiKey env key))) = 3
         \<and> (instanceofError lastFailure \<longrightarrow> asError lastFailure = lastFailure)
         \<and> url env = ''https://'' @ sstStagePrefix env
              @ (''license'' @ (if isSandbox env then ''.libum-sandbox'' else []) @ ''.libum.io'')
              @ ''/subscriptionsByApiKey?product=poweron-pipelines''"
proof -
  from assms(1) obtain c where c: "c \<in> set key" "\<not> isWhiteSpace c" by blast
  have start: "validateApiKey env key = validateLoop env key 1"
    using c by (rule validateApiKey_loop)
  have r1: "retryable (tryBlock (fetch env 1) key)"
    and r2: "retryable (tryBlock (fetch env 2) key)"
    and r3: "retryable (tryBlock (fetch env MAX_API_RETRIES) key)"
    using assms(2) by (simp_all add: MAX_API_RETRIES_def)
  from r3 assms(3) have last: "\<not> instanceofAuthenticationError lastFailure"
    "\<not> instanceofConnectionError lastFailure" by simp_all
  have l3: "validateLoop env key 3 =
    (Inl (ConnectionError
            ''Failed to fetch PowerOn Pipelines API key subscription data after multiple attempts''
            (''license'' @ (if isSandbox env then ''.libum-sandbox'' else []) @ ''.libum.io'')
            443 True (Some (asError lastFailure))),
     [SetTimeout API_REQUEST_TIMEOUT_MS, Fetch (url env) key, ClearTimeout])"
    using validateLoop_exhausted [OF assms(3) last] by (simp only: MAX_API_RETRIES_def)
  have l2: "validateLoop env key 2 =
    (fst (validateLoop env key 3),
     [SetTimeout API_REQUEST_TIMEOUT_MS, Fetch (url env) key, Delay 1000, ClearTimeout]
       @ snd (validateLoop env key 3))"
    using validateLoop_retry_from [of 2 env key] r2 by (simp add: MAX_API_RETRIES_def)
  have l1: "validateLoop env key 1 =
    (fst (validateLoop env key 2),
     [SetTimeout API_REQUEST_TIMEOUT_MS, Fetch (url env) key, Delay 500, ClearTimeout]
       @ snd (validateLoop env key 2))"
    using validateLoop_retry_from [of 1 env key] r1 by (simp add: MAX_API_RETRIES_def numeral_2_eq_2)
  have run: "validateApiKey env key =
           (Inl (ConnectionError
                   ''Failed to fetch PowerOn Pipelines API key subscription data after multiple attempts''
                   (''license'' @ (if isSandbox env then ''.libum-sandbox'' else []) @ ''.libum.io'')
                   443 True (Some (asError lastFailure))),
            [SetTimeout API_REQUEST_TIMEOUT_MS, Fetch (url env) key, Delay 500, ClearTimeout,
             SetTimeout API_REQUEST_TIMEOUT_MS, Fetch (url env) key, Delay 1000, ClearTimeout,
             SetTimeout API_REQUEST_TIMEOUT_MS, Fetch (url env) key, ClearTimeout])"
    unfolding start l1 l2 l3 by simp
  have count: "length (filter isFetch (snd (validateApiKey env key))) = 3"
    unfolding run by simp
  have same: "instanceofError lastFailure \<longrightarrow> asError lastFailure = lastFailure"
    by (cases lastFailure) simp_all
  have u: "url env = ''https://'' @ sstStagePrefix env
              @ (''license'' @ (if isSandbox env then ''.libum-sandbox'' else []) @ ''.libum.io'')
              @ ''/subscriptionsByApiKey?product=poweron-pipelines''"
    by (simp add: url_def)
  from run count same u show ?thesis by (intro conjI)
qed


theorem validateApiKey_retries_exhausted_witness:
  "validateApiKey envNetworkDown ''api-key'' =
     (Inl (ConnectionError
             ''Failed to fetch PowerOn Pipelines API key subscription data after multiple attempts''
             ''license.libum.io'' 443 True (Some (Error ''Network error''))),
      [SetTimeout 30000,
       Fetch ''https://license.libum.io/subscriptionsByApiKey?product=poweron-pipelines'' ''api-key'',
       Delay 500, ClearTimeout,
       SetTimeout 30000,
       Fetch ''https://license.libum.io/subscriptionsByApiKey?product=poweron-pipelines'' ''api-key'',
       Delay 1000, ClearTimeout,
       SetTimeout 30000,
       Fetch ''https://license.libum.io/subscriptionsByApiKey?product=poweron-pipelines'' ''api-key'',
       ClearTimeout])
   \<and> length (filter isFetch (snd (validateApiKey envNetworkDown ''api-key''))) = 3"
proof -
  have k: "\<exists>c\<in>set ''api-key''. \<not> isWhiteSpace c"
    by (simp add: isWhiteSpace_def)
  have r: "\<forall>n\<in>{1..MAX_API_RETRIES}. retryable (tryBlock (fetch envNetworkDown n) ''api-key'')"
    by (simp add: envNetworkDown_def tryBlock_def)
  have l: "tryBlock (fetch envNetworkDown MAX_API_RETRIES) ''api-key'' = Inl (Error ''Network error'')"
    by (simp add: envNetworkDown_def tryBlock_def)
  show ?thesis
    using validateApiKey_retries_exhausted [OF k r l]
    by (simp add: envNetworkDown_def url_def API_REQUEST_TIMEOUT_MS_def)
qed

text \<open>Evaluation of a run in a concrete world.\<close>

lemmas run_simps =
  validateApiKey_def trim_def isWhiteSpace_def validateLoop.simps tryBlock_def
  MAX_API_RETRIES_def API_REQUEST_TIMEOUT_MS_def url_def Let_def show_nat.simps digit_char_def

text \<open>
  Claim C3. After three retryable failures the \<open>ConnectionError\<close> is to carry the
  host of the endpoint. The code misses this when a stage prefix is set: with the
  prefix \<open>dev-\<close> the three requests go to \<open>dev-license.libum.io\<close>, the host of
  the URL that \<open>validateApiKey\<close> itself builds, and the \<open>ConnectionError\<close> carries
  \<open>license.libum.io\<close>.
\<close>

theorem stage_prefix_not_in_error_host:
  "fst (validateApiKey envStaged ''api-key'') =
     Inl (ConnectionError
            ''Failed to fetch PowerOn Pipelines API key subscription data after multiple attempts''
            ''license.libum.io'' 443 True (Some (Error ''Network error'')))
   \<and> urlHost (url envStaged) = ''dev-license.libum.io''
   \<and> errorHost (ConnectionError
            ''Failed to fetch PowerOn Pipelines API key subscription data after multiple attempts''
            ''license.libum.io'' 443 True (Some (Error ''Network error'')))
       \<noteq> Some (urlHost (url envStaged))"
  by (simp add: run_simps envStaged_def urlHost_def)


lemma validateLoop_first:
  assumes "retryable (tryBlock (fetch env 1) key)"
  shows "validateLoop env key 1 =
    (fst (validateLoop env key 2),
     [SetTimeout API_REQUEST_TIMEOUT_MS, Fetch (url env) key, Delay 500, ClearTimeout]
       @ snd (validateLoop env key 2))"
  using validateLoop_retry_from [of 1 env key] assms
  by (simp add: MAX_API_RETRIES_def numeral_2_eq_2)

lemma validateLoop_second:
  assumes "retryable (tryBlock (fetch env 2) key)"
  shows "validateLoop env key 2 =
    (fst (validateLoop env key 3),
     [SetTimeout API_REQUEST_TIMEOUT_MS, Fetch (url env) key, Delay 1000, ClearTimeout]
       @ snd (validateLoop env key 3))"
  using validateLoop_retry_from [of 2 env key] assms
  by (simp add: MAX_API_RETRIES_def)

text \<open>
  Claim C4, as amended. When attempt \<open>n\<close> (first, second or third, the earlier ones
  having failed with retryable failures) receives a response whose status is not a
  success, the loop ends there: from that attempt on there is one request and no
  wait, the run has made \<open>n\<close> requests in all, and \<open>validateApiKey\<close> throws the
  \<open>AuthenticationError\<close> that carries the key and the empty string as its host.
\<close>

theorem validateApiKey_http_error_stops:
  assumes "\<exists>c\<in>set key. \<not> isWhiteSpace c"
    and "n \<in> {1..MAX_API_RETRIES}"
    and "\<forall>k\<in>{1..<n}. retryable (tryBlock (fetch env k) key)"
    and "fetch env n = Inr resp" and "\<not> ok resp"
  shows "fst (validateApiKey env key) =
           Inl (AuthenticationError
                 (''Failed to validate API key: '' @ show_nat (status resp) @ '' '' @ statusText resp)
                 key [])
         \<and> length (filter isFetch (snd (validateApiKey env key))) = n
         \<and> validateLoop env key n =
             (Inl (AuthenticationError
                    (''Failed to validate API key: '' @ show_nat (status resp) @ '' '' @ statusText resp)
                    key []),
              [SetTimeout API_REQUEST_TIMEOUT_MS, Fetch (url env) key, ClearTimeout])"
proof -
  let ?err = "AuthenticationError
     (''Failed to validate API key: '' @ show_nat (status resp) @ '' '' @ statusText resp) key []"
  from assms(1) obtain c where c: "c \<in> set key" "\<not> isWhiteSpace c" by blast
  have start: "validateApiKey env key = validateLoop env key 1"
    using c by (rule validateApiKey_loop)
  have thrown: "tryBlock (fetch env n) key = Inl ?err"
    using assms(4,5) by (rule tryBlock_not_ok)
  from assms(2) have le: "n \<le> MAX_API_RETRIES" by simp
  have stop: "validateLoop env key n =
      (Inl ?err, [SetTimeout API_REQUEST_TIMEOUT_MS, Fetch (url env) key, ClearTimeout])"
    using le thrown by (rule validateLoop_rethrow) simp
  from assms(2) have "n = 1 \<or> n = 2 \<or> n = 3"
    unfolding MAX_API_RETRIES_def atLeastAtMost_iff by arith
  then consider "n = 1" | "n = 2" | "n = 3" by blast
  then have "fst (validateApiKey env key) = Inl ?err
      \<and> length (filter isFetch (snd (validateApiKey env key))) = n"
  proof cases
    case 1
    with stop show ?thesis unfolding start by simp
  next
    case 2
    with assms(3) have "retryable (tryBlock (fetch env 1) key)" by simp
    then have "validateLoop env key 1 =
      (fst (validateLoop env key 2),
       [SetTimeout API_REQUEST_TIMEOUT_MS, Fetch (url env) key, Delay 500, ClearTimeout]
         @ snd (validateLoop env key 2))" by (rule validateLoop_first)
    with stop 2 show ?thesis unfolding start by simp
  next
    case 3
    with assms(3) have r1: "retryable (tryBlock (fetch env 1) key)"
      and r2: "retryable (tryBlock (fetch env 2) key)" by simp_all
    have "validateLoop env key 1 =
      (fst (validateLoop env key 2),
       [SetTimeout API_REQUEST_TIMEOUT_MS, Fetch (url env) key, Delay 500, ClearTimeout]
         @ snd (validateLoop env key 2))"
      and "validateLoop env key 2 =
      (fst (validateLoop env key 3),
       [SetTimeout API_REQUEST_TIMEOUT_MS, Fetch (url env) key, Delay 1000, ClearTimeout]
         @ snd (validateLoop env key 3))"
      by (rule validateLoop_first [OF r1], rule validateLoop_second [OF r2])
    with stop 3 show ?thesis unfolding start by simp
  qed
  with stop show ?thesis by simp
qed

theorem validateApiKey_http_error_stops_witness:
  "fst (validateApiKey env401 ''bad-api-key'') =
     Inl (AuthenticationError ''Failed to validate API key: 401 Unauthorized'' ''bad-api-key'' [])
   \<and> length (filter isFetch (snd (validateApiKey env401 ''bad-api-key''))) = 1
   \<and> fst (validateApiKey envFlaky401 ''bad-api-key'') =
     Inl (AuthenticationError ''Failed to validate API key: 401 Unauthorized'' ''bad-api-key'' [])
   \<and> length (filter isFetch (snd (validateApiKey envFlaky401 ''bad-api-key''))) = 2"
proof -
  have k: "\<exists>c\<in>set ''bad-api-key''. \<not> isWhiteSpace c"
    by (simp add: isWhiteSpace_def)
  have n1: "(1::nat) \<in> {1..MAX_API_RETRIES}" and n2: "(2::nat) \<in> {1..MAX_API_RETRIES}"
    by (simp_all add: MAX_API_RETRIES_def)
  have r1: "\<forall>k\<in>{1..<1::nat}. retryable (tryBlock (fetch env401 k) ''bad-api-key'')"
    by simp
  have r2: "\<forall>k\<in>{1..<2::nat}. retryable (tryBlock (fetch envFlaky401 k) ''bad-api-key'')"
    by (simp add: envFlaky401_def tryBlock_def)
  have f1: "fetch env401 1 = Inr unauthorized" by (simp add: env401_def)
  have f2: "fetch envFlaky401 2 = Inr unauthorized" by (simp add: envFlaky401_def)
  have no: "\<not> ok unauthorized" by (simp add: unauthorized_def)
  show ?thesis
    using validateApiKey_http_error_stops [OF k n1 r1 f1 no]
      validateApiKey_http_error_stops [OF k n2 r2 f2 no]
    by (simp add: unauthorized_def show_nat.simps digit_char_def)
qed

text \<open>
  Claim C4 as stated fails: on a 401 the \<open>AuthenticationError\<close> carries the empty
  host, not \<open>license.libum.io\<close>, the host the request went to.
\<close>

theorem authentication_error_host_is_empty:
  "fst (validateApiKey env401 ''bad-api-key'') =
     Inl (AuthenticationError ''Failed to validate API key: 401 Unauthorized'' ''bad-api-key'' [])
   \<and> urlHost (url env401) = ''license.libum.io''
   \<and> errorHost (AuthenticationError ''Failed to validate API key: 401 Unauthorized''
                   ''bad-api-key'' [])
       \<noteq> Some (urlHost (url env401))"
  by (simp add: run_simps env401_def unauthorized_def urlHost_def)


text \<open>
  Claim C6. For attempt \<open>n\<close> in 1..2 (not the final one) that fails with a retryable
  failure, the earlier attempts having done so too, the wait between the request of
  attempt \<open>n\<close> and the next attempt is \<open>min (500 * 2 ^ (n - 1)) 10000\<close>
  milliseconds: 500 after attempt 1 and 1000 after attempt 2.
\<close>

theorem validateApiKey_backoff_delay:
  assumes "\<exists>c\<in>set key. \<not> isWhiteSpace c"
    and "n \<in> {1..<MAX_API_RETRIES}"
    and "\<forall>k\<in>{1..n}. retryable (tryBlock (fetch env k) key)"
  shows "take 4 (drop (4 * (n - 1)) (snd (validateApiKey env key))) =
           [SetTimeout API_REQUEST_TIMEOUT_MS, Fetch (url env) key,
            Delay (min (500 * 2 ^ (n - 1)) 10000), ClearTimeout]
         \<and> take 2 (drop (4 * n) (snd (validateApiKey env key))) =
           [SetTimeout API_REQUEST_TIMEOUT_MS, Fetch (url env) key]
         \<and> n \<le> length (delays (snd (validateApiKey env key)))
         \<and> delays (snd (validateApiKey env key)) ! (n - 1) = min (500 * 2 ^ (n - 1)) 10000
         \<and> min (500 * 2 ^ (n - 1)) 10000 = (if n = 1 then 500 else (1000::nat))"
proof -
  from assms(1) obtain c where c: "c \<in> set key" "\<not> isWhiteSpace c" by blast
  have start: "validateApiKey env key = validateLoop env key 1"
    using c by (rule validateApiKey_loop)
  from assms(2) have "n = 1 \<or> n = 2"
    unfolding MAX_API_RETRIES_def atLeastLessThan_iff by arith
  then show ?thesis
  proof
    assume n: "n = 1"
    with assms(3) have r1: "retryable (tryBlock (fetch env 1) key)" by simp
    have h2: "take 2 (snd (validateLoop env key 2)) =
        [SetTimeout API_REQUEST_TIMEOUT_MS, Fetch (url env) key]"
      by (rule validateLoop_head) (simp add: MAX_API_RETRIES_def)
    show ?thesis
      unfolding start validateLoop_first [OF r1] n
      using h2 by (simp add: delays_append)
  next
    assume n: "n = 2"
    with assms(3) have r1: "retryable (tryBlock (fetch env 1) key)"
      and r2: "retryable (tryBlock (fetch env 2) key)" by simp_all
    have h3: "take 2 (snd (validateLoop env key 3)) =
        [SetTimeout API_REQUEST_TIMEOUT_MS, Fetch (url env) key]"
      by (rule validateLoop_head) (simp add: MAX_API_RETRIES_def)
    show ?thesis
      unfolding start validateLoop_first [OF r1] validateLoop_second [OF r2] n
      using h3 by (simp add: delays_append)
  qed
qed

theorem validateApiKey_backoff_delay_witness:
  "delays (snd (validateApiKey envFlakyValid ''test-api-key'')) ! (1 - 1) = 500
   \<and> delays (snd (validateApiKey envFlakyValid ''test-api-key'')) ! (2 - 1) = 1000
   \<and> take 4 (drop (4 * (2 - 1)) (snd (validateApiKey envFlakyValid ''test-api-key''))) =
       [SetTimeout 30000,
        Fetch ''https://license.libum.io/subscriptionsByApiKey?product=poweron-pipelines''
          ''test-api-key'',
        Delay 1000, ClearTimeout]"
proof -
  have k: "\<exists>c\<in>set ''test-api-key''. \<not> isWhiteSpace c"
    by (simp add: isWhiteSpace_def)
  have n1: "(1::nat) \<in> {1..<MAX_API_RETRIES}" and n2: "(2::nat) \<in> {1..<MAX_API_RETRIES}"
    by (simp_all add: MAX_API_RETRIES_def)
  have r1: "\<forall>k\<in>{1..1::nat}. retryable (tryBlock (fetch envFlakyValid k) ''test-api-key'')"
    by (simp add: envFlakyValid_def tryBlock_def)
  have r2: "\<forall>k\<in>{1..2::nat}. retryable (tryBlock (fetch envFlakyValid k) ''test-api-key'')"
    by (simp add: envFlakyValid_def tryBlock_def)
  show ?thesis
    using validateApiKey_backoff_delay [OF k n1 r1] validateApiKey_backoff_delay [OF k n2 r2]
    by (simp add: envFlakyValid_def url_def API_REQUEST_TIMEOUT_MS_def)
qed


section \<open>Properties of the orchestrator\<close>

lemma transport_001:
  fixes c :: "'a SynchronizeConfig_scheme" and w d m l
  defines "called \<equiv> (if connectionType c = https then synchronizeViaHTTPs w c d m l
                       else synchronizeViaSSH w c d m l)"
  shows "(connectionType c = https \<and> (symitarAppPort c = None \<or> symitarAppPort c = Some 0)
          \<and> called = (Inl (Error ''symitar-app-port is required when using HTTPS connection''), []))
       \<or> (filter isClientConstruction (snd called) \<noteq> []
          \<and> length (filter isClientEnd (snd called)) = 1
          \<and> snd called \<noteq> [] \<and> last (snd called) = ClientEnd
          \<and> fst called = afterTeardown w (connectionType c))"
  unfolding called_def
  by (cases "connectionType c")
     (auto simp add: synchronizeViaHTTPs_def synchronizeViaSSH_def tryFinally_def
        tryCompletion_def afterTeardown_def Let_def split: option.splits)

lemma transport_000:
  fixes c :: "'a SynchronizeConfig_scheme" and w d m l
  defines "called \<equiv> (if connectionType c = https then synchronizeViaHTTPs_000 w c d m l
                       else synchronizeViaSSH_000 w c d m l)"
  shows "(connectionType c = https \<and> (symitarAppPort c = None \<or> symitarAppPort c = Some 0)
          \<and> called = (Inl (Error ''symitar-app-port is required when using HTTPS connection''), []))
       \<or> (filter isClientConstruction (snd called) \<noteq> []
          \<and> length (filter isClientEnd (snd called)) = 1
          \<and> snd called \<noteq> [] \<and> last (snd called) = ClientEnd
          \<and> fst called = afterTeardown w (connectionType c))"
  unfolding called_def
  by (cases "connectionType c")
     (auto simp add: synchronizeViaHTTPs_000_def synchronizeViaSSH_000_def tryFinally_def
        tryCompletion_def afterTeardown_def Let_def split: option.splits)

lemma synchronizeToSymitar_unfold:
  "synchronizeToSymitar env w c =
     (case fst (validateApiKey env (apiKey c)) of
        Inl e \<Rightarrow> (Inl e, snd (validateApiKey env (apiKey c)))
      | Inr u \<Rightarrow>
          (map_sum id resultOf
             (fst (if connectionType c = https
                   then synchronizeViaHTTPs w c (symitarDirectory (getDirectoryConfig (directoryType c)))
                          (getSyncMode (syncMode c))
                          (getInstallList (directoryType c) (installPowerOnList c))
                   else synchronizeViaSSH w c (symitarDirectory (getDirectoryConfig (directoryType c)))
                          (getSyncMode (syncMode c))
                          (getInstallList (directoryType c) (installPowerOnList c)))),
           snd (validateApiKey env (apiKey c))
             @ snd (if connectionType c = https
                   then synchronizeViaHTTPs w c (symitarDirectory (getDirectoryConfig (directoryType c)))
                          (getSyncMode (syncMode c))
                          (getInstallList (directoryType c) (installPowerOnList c))
                   else synchronizeViaSSH w c (symitarDirectory (getDirectoryConfig (directoryType c)))
                          (getSyncMode (syncMode c))
                          (getInstallList (directoryType c) (installPowerOnList c)))))"
  by (simp add: synchronizeToSymitar_def Let_def resultOf_def split: sum.splits)


lemma synchronizeToSymitar_000_unfold:
  "synchronizeToSymitar_000 env w c =
     (case fst (validateApiKey env (apiKey c)) of
        Inl e \<Rightarrow> (Inl e, snd (validateApiKey env (apiKey c)))
      | Inr u \<Rightarrow>
          (map_sum id resultOf_000
             (fst (if connectionType c = https
                   then synchronizeViaHTTPs_000 w c (symitarDirectory (getDirectoryConfig (directoryType c)))
                          (getSyncMode (syncMode c))
                          (SyncFilesOptions (getSyncTransport (syncMethod c)) (sftpConcurrency c)
                             (getInstallList (directoryType c) (installPowerOnList c))
                             (validateIgnoreList c))
                   else synchronizeViaSSH_000 w c (symitarDirectory (getDirectoryConfig (directoryType c)))
                          (getSyncMode (syncMode c))
                          (SyncFilesOptions (getSyncTransport (syncMethod c)) (sftpConcurrency c)
                             (getInstallList (directoryType c) (installPowerOnList c))
                             (validateIgnoreList c)))),
           snd (validateApiKey env (apiKey c))
             @ snd (if connectionType c = https
                   then synchronizeViaHTTPs_000 w c (symitarDirectory (getDirectoryConfig (directoryType c)))
                          (getSyncMode (syncMode c))
                          (SyncFilesOptions (getSyncTransport (syncMethod c)) (sftpConcurrency c)
                             (getInstallList (directoryType c) (installPowerOnList c))
                             (validateIgnoreList c))
                   else synchronizeViaSSH_000 w c (symitarDirectory (getDirectoryConfig (directoryType c)))
                          (getSyncMode (syncMode c))
                          (SyncFilesOptions (getSyncTransport (syncMethod c)) (sftpConcurrency c)
                             (getInstallList (directoryType c) (installPowerOnList c))
                             (validateIgnoreList c)))))"
  by (auto simp add: synchronizeToSymitar_000_def Let_def resultOf_000_def
        split: sum.splits option.splits)

text \<open>The three ways a run of \<open>synchronizeToSymitar\<close> can go.\<close>

lemma synchronizeToSymitar_cases:
  fixes c :: "'a SynchronizeConfig_scheme"
  shows
  "(\<exists>e. fst (validateApiKey env (apiKey c)) = Inl e
        \<and> synchronizeToSymitar env w c = (Inl e, snd (validateApiKey env (apiKey c))))
   \<or> (fst (validateApiKey env (apiKey c)) = Inr ()
        \<and> connectionType c = https \<and> (symitarAppPort c = None \<or> symitarAppPort c = Some 0)
        \<and> synchronizeToSymitar env w c =
            (Inl (Error ''symitar-app-port is required when using HTTPS connection''),
             snd (validateApiKey env (apiKey c))))
   \<or> (fst (validateApiKey env (apiKey c)) = Inr ()
        \<and> (\<exists>tr. synchronizeToSymitar env w c =
              (map_sum id resultOf (afterTeardown w (connectionType c)),
               snd (validateApiKey env (apiKey c)) @ tr)
            \<and> filter isClientConstruction tr \<noteq> [] \<and> length (filter isClientEnd tr) = 1
            \<and> tr \<noteq> [] \<and> last tr = ClientEnd))"
proof (cases "fst (validateApiKey env (apiKey c))")
  case (Inl e)
  then show ?thesis by (simp add: synchronizeToSymitar_unfold)
next
  case (Inr u)
  with transport_001 [of c w "symitarDirectory (getDirectoryConfig (directoryType c))"
      "getSyncMode (syncMode c)" "getInstallList (directoryType c) (installPowerOnList c)"]
  show ?thesis by (auto simp add: synchronizeToSymitar_unfold)
qed

lemma synchronizeToSymitar_000_cases:
  "(\<exists>e. fst (validateApiKey env (apiKey c)) = Inl e
        \<and> synchronizeToSymitar_000 env w c = (Inl e, snd (validateApiKey env (apiKey c))))
   \<or> (fst (validateApiKey env (apiKey c)) = Inr ()
        \<and> connectionType c = https \<and> (symitarAppPort c = None \<or> symitarAppPort c = Some 0)
        \<and> synchronizeToSymitar_000 env w c =
            (Inl (Error ''symitar-app-port is required when using HTTPS connection''),
             snd (validateApiKey env (apiKey c))))
   \<or> (fst (validateApiKey env (apiKey c)) = Inr ()
        \<and> (\<exists>tr. synchronizeToSymitar_000 env w c =
              (map_sum id resultOf_000 (afterTeardown w (connectionType c)),
               snd (validateApiKey env (apiKey c)) @ tr)
            \<and> filter isClientConstruction tr \<noteq> [] \<and> length (filter isClientEnd tr) = 1
            \<and> tr \<noteq> [] \<and> last tr = ClientEnd))"
proof (cases "fst (validateApiKey env (apiKey c))")
  case (Inl e)
  then show ?thesis by (simp add: synchronizeToSymitar_000_unfold)
next
  case (Inr u)
  with transport_000 [of c w "symitarDirectory (getDirectoryConfig (directoryType c))"
      "getSyncMode (syncMode c)"
      "SyncFilesOptions (getSyncTransport (syncMethod c)) (sftpConcurrency c)
         (getInstallList (directoryType c) (installPowerOnList c)) (validateIgnoreList c)"]
  show ?thesis by (auto simp add: synchronizeToSymitar_000_unfold)
qed

lemma no_construction:
  "filter isClientConstruction (snd (validateApiKey env key)) = []"
  by (simp add: validateApiKey_no_client)

lemma no_teardown:
  "filter isClientEnd (snd (validateApiKey env key)) = []"
  by (simp add: validateApiKey_no_client)

lemma teardown_001:
  fixes c :: "'a SynchronizeConfig_scheme"
  assumes "\<exists>ev\<in>set (snd (synchronizeToSymitar env w c)). isClientConstruction ev"
  shows "length (filter isClientEnd (snd (synchronizeToSymitar env w c))) = 1
       \<and> last (snd (synchronizeToSymitar env w c)) = ClientEnd
       \<and> fst (synchronizeToSymitar env w c) = map_sum id resultOf (afterTeardown w (connectionType c))"
proof -
  from assms have built: "filter isClientConstruction (snd (synchronizeToSymitar env w c)) \<noteq> []"
    by (simp add: filter_empty_conv)
  from synchronizeToSymitar_cases [of env c w] built show ?thesis
    by (auto simp add: no_construction no_teardown)
qed

lemma teardown_000:
  assumes "\<exists>ev\<in>set (snd (synchronizeToSymitar_000 env w c)). isClientConstruction ev"
  shows "length (filter isClientEnd (snd (synchronizeToSymitar_000 env w c))) = 1
       \<and> last (snd (synchronizeToSymitar_000 env w c)) = ClientEnd
       \<and> fst (synchronizeToSymitar_000 env w c)
           = map_sum id resultOf_000 (afterTeardown w (connectionType c))"
proof -
  from assms have built: "filter isClientConstruction (snd (synchronizeToSymitar_000 env w c)) \<noteq> []"
    by (simp add: filter_empty_conv)
  from synchronizeToSymitar_000_cases [of env c w] built show ?thesis
    by (auto simp add: no_construction no_teardown)
qed

lemma no_port_001:
  fixes c :: "'a SynchronizeConfig_scheme"
  assumes "connectionType c = https" and "symitarAppPort c = None"
  shows "synchronizeToSymitar env w c =
           ((case fst (validateApiKey env (apiKey c)) of
               Inl e \<Rightarrow> Inl e
             | Inr u \<Rightarrow> Inl (Error ''symitar-app-port is required when using HTTPS connection'')),
            snd (validateApiKey env (apiKey c)))"
  using assms
  by (simp add: synchronizeToSymitar_unfold synchronizeViaHTTPs_def split: sum.splits)

lemma no_port_000:
  assumes "connectionType c = https" and "symitarAppPort c = None"
  shows "synchronizeToSymitar_000 env w c =
           ((case fst (validateApiKey env (apiKey c)) of
               Inl e \<Rightarrow> Inl e
             | Inr u \<Rightarrow> Inl (Error ''symitar-app-port is required when using HTTPS connection'')),
            snd (validateApiKey env (apiKey c)))"
  using assms
  by (simp add: synchronizeToSymitar_000_unfold synchronizeViaHTTPs_000_def split: sum.splits)

lemma counts_001:
  fixes c :: "'a SynchronizeConfig_scheme"
  assumes "fst (synchronizeToSymitar env w c) = Inr r"
  shows "\<exists>out. afterTeardown w (connectionType c) = Inr out \<and> r = resultOf out"
  using synchronizeToSymitar_cases [of env c w] assms
  by (cases "afterTeardown w (connectionType c)") auto

lemma counts_000:
  assumes "fst (synchronizeToSymitar_000 env w c) = Inr r"
  shows "\<exists>out. afterTeardown w (connectionType c) = Inr out \<and> r = resultOf_000 out"
  using synchronizeToSymitar_000_cases [of env c w] assms
  by (cases "afterTeardown w (connectionType c)") auto

lemma afterTeardown_Inr:
  assumes "afterTeardown w conn = Inr out"
  shows "syncOutcome w = Inr out \<and> endOutcome w = None"
  using assms
  by (auto simp add: afterTeardown_def tryCompletion_def split: option.splits if_splits)


lemmas sync_simps =
  synchronizeToSymitar_def synchronizeViaHTTPs_def synchronizeViaSSH_def
  synchronizeToSymitar_000_def synchronizeViaHTTPs_000_def synchronizeViaSSH_000_def
  tryFinally_def getDirectoryConfig_def getInstallList_def show_int_def

lemmas fixture_simps =
  envValid_def activeBody_def defaultConfig_def httpsConfig_def configWithoutPort_def
  configWithoutPortOrKey_def letterFilesConfig_def defaultConfig_000_def httpsConfig_000_def
  configWithoutPort_000_def defaultSyncResult_def defaultSyncResult_000_def transportOk_def
  transportSyncFails_def transportEndFails_def transportWithInstall_def transportOk_000_def
  transportEndFails_000_def resultWithInstall_def
  SynchronizeConfig.extend_def SynchronizeConfig_000.fields_def

text \<open>
  Claim C1, as amended. For every directory type, those that do not support install
  included, and every transport outcome, the result that \<open>synchronizeToSymitar\<close>
  returns carries the installed and uninstalled lists of the outcome unchanged, and
  \<open>filesInstalled\<close> and \<open>filesUninstalled\<close> are their lengths; nothing is set to
  zero. Only the total of \<open>calculateTotalChanges\<close> leaves the two lists out for a
  type that does not support install.
\<close>

theorem install_lists_passed_through:
  fixes c :: "'a SynchronizeConfig_scheme"
  assumes "fst (synchronizeToSymitar env w c) = Inr r" and "syncOutcome w = Inr out"
  shows "installedFiles r = installed out \<and> uninstalledFiles r = uninstalled out
       \<and> filesInstalled r = length (installed out)
       \<and> filesUninstalled r = length (uninstalled out)
       \<and> calculateTotalChanges (directoryType c) (listsOf r) =
           length (deployed out) + length (deleted out)
             + (if supportsInstall (DIRECTORY_CONFIG (directoryType c))
                then length (installed out) + length (uninstalled out) else 0)"
proof -
  from counts_001 [OF assms(1)] obtain out' where
    o: "afterTeardown w (connectionType c) = Inr out'" and r: "r = resultOf out'" by blast
  from afterTeardown_Inr [OF o] assms(2) have "out' = out" by simp
  with r show ?thesis
    by (simp add: resultOf_def listsOf_def calculateTotalChanges_def Let_def)
qed

theorem install_lists_passed_through_witness:
  "fst (synchronizeToSymitar envValid transportWithInstall letterFilesConfig) =
     Inr \<lparr>filesDeployed = 2, filesDeleted = 1, filesInstalled = 1, filesUninstalled = 2,
          deployedFiles = [''A.PO'', ''B.PO''], deletedFiles = [''C.PO''],
          installedFiles = [''A.PO''], uninstalledFiles = [''D.PO'', ''E.PO'']\<rparr>
   \<and> syncOutcome transportWithInstall = Inr resultWithInstall
   \<and> installed resultWithInstall = [''A.PO'']
   \<and> calculateTotalChanges (directoryType letterFilesConfig)
        (listsOf \<lparr>filesDeployed = 2, filesDeleted = 1, filesInstalled = 1, filesUninstalled = 2,
          deployedFiles = [''A.PO'', ''B.PO''], deletedFiles = [''C.PO''],
          installedFiles = [''A.PO''], uninstalledFiles = [''D.PO'', ''E.PO'']\<rparr>) = 3"
proof -
  have run: "fst (synchronizeToSymitar envValid transportWithInstall letterFilesConfig) =
     Inr \<lparr>filesDeployed = 2, filesDeleted = 1, filesInstalled = 1, filesUninstalled = 2,
          deployedFiles = [''A.PO'', ''B.PO''], deletedFiles = [''C.PO''],
          installedFiles = [''A.PO''], uninstalledFiles = [''D.PO'', ''E.PO'']\<rparr>"
    by (simp add: sync_simps run_simps fixture_simps)
  have out: "syncOutcome transportWithInstall = Inr resultWithInstall"
    by (simp add: transportWithInstall_def)
  show ?thesis
    using install_lists_passed_through [OF run out] run out
    by (simp add: resultWithInstall_def letterFilesConfig_def defaultConfig_def)
qed

text \<open>
  Claim C1 as stated fails: for \<open>letterFiles\<close>, which does not support install, and a
  transport outcome with one installed and two uninstalled files, the result has
  \<open>filesInstalled = 1\<close>, \<open>filesUninstalled = 2\<close> and both lists non-empty.
\<close>

theorem non_install_type_reports_installs:
  "fst (synchronizeToSymitar envValid transportWithInstall letterFilesConfig) =
     Inr \<lparr>filesDeployed = 2, filesDeleted = 1, filesInstalled = 1, filesUninstalled = 2,
          deployedFiles = [''A.PO'', ''B.PO''], deletedFiles = [''C.PO''],
          installedFiles = [''A.PO''], uninstalledFiles = [''D.PO'', ''E.PO'']\<rparr>
   \<and> \<not> supportsInstall (DIRECTORY_CONFIG (directoryType letterFilesConfig))"
  by (simp add: sync_simps run_simps fixture_simps)

text \<open>
  Claim C2, as amended. In both revisions, every run of \<open>synchronizeToSymitar\<close> that
  constructs a transport client (HTTPS or SSH) calls \<open>end\<close> exactly once, as its last
  step, whether the body of the \<open>try\<close> block returned or threw. When \<open>end\<close>
  resolves, the caller sees the outcome of the body: its error, or the result built
  from its file lists. When \<open>end\<close> itself fails, the caller sees the failure of
  \<open>end\<close> in place of that outcome.
\<close>

theorem teardown_exactly_once:
  fixes c :: "'a SynchronizeConfig_scheme"
  shows
  "((\<exists>ev\<in>set (snd (synchronizeToSymitar env w c)). isClientConstruction ev) \<longrightarrow>
       length (filter isClientEnd (snd (synchronizeToSymitar env w c))) = 1
     \<and> last (snd (synchronizeToSymitar env w c)) = ClientEnd
     \<and> fst (synchronizeToSymitar env w c) =
         (case endOutcome w of
            None \<Rightarrow> map_sum id resultOf (tryCompletion w (connectionType c))
          | Some e \<Rightarrow> Inl e))
   \<and> ((\<exists>ev\<in>set (snd (synchronizeToSymitar_000 env0 w0 c0)). isClientConstruction ev) \<longrightarrow>
       length (filter isClientEnd (snd (synchronizeToSymitar_000 env0 w0 c0))) = 1
     \<and> last (snd (synchronizeToSymitar_000 env0 w0 c0)) = ClientEnd
     \<and> fst (synchronizeToSymitar_000 env0 w0 c0) =
         (case endOutcome w0 of
            None \<Rightarrow> map_sum id resultOf_000 (tryCompletion w0 (connectionType c0))
          | Some e \<Rightarrow> Inl e))"
proof (intro conjI impI)
  assume a: "\<exists>ev\<in>set (snd (synchronizeToSymitar env w c)). isClientConstruction ev"
  from teardown_001 [OF a]
  show "length (filter isClientEnd (snd (synchronizeToSymitar env w c))) = 1"
    and "last (snd (synchronizeToSymitar env w c)) = ClientEnd"
    and "fst (synchronizeToSymitar env w c) =
         (case endOutcome w of
            None \<Rightarrow> map_sum id resultOf (tryCompletion w (connectionType c))
          | Some e \<Rightarrow> Inl e)"
    by (simp_all add: afterTeardown_def split: option.splits)
next
  assume a: "\<exists>ev\<in>set (snd (synchronizeToSymitar_000 env0 w0 c0)). isClientConstruction ev"
  from teardown_000 [OF a]
  show "length (filter isClientEnd (snd (synchronizeToSymitar_000 env0 w0 c0))) = 1"
    and "last (snd (synchronizeToSymitar_000 env0 w0 c0)) = ClientEnd"
    and "fst (synchronizeToSymitar_000 env0 w0 c0) =
         (case endOutcome w0 of
            None \<Rightarrow> map_sum id resultOf_000 (tryCompletion w0 (connectionType c0))
          | Some e \<Rightarrow> Inl e)"
    by (simp_all add: afterTeardown_def split: option.splits)
qed

theorem teardown_exactly_once_witness:
  "length (filter isClientEnd (snd (synchronizeToSymitar envValid transportSyncFails defaultConfig))) = 1
   \<and> fst (synchronizeToSymitar envValid transportSyncFails defaultConfig) = Inl (Error ''Sync failed'')
   \<and> length (filter isClientEnd
        (snd (synchronizeToSymitar_000 envValid transportOk_000 httpsConfig_000))) = 1
   \<and> fst (synchronizeToSymitar_000 envValid transportOk_000 httpsConfig_000) =
        Inr (resultOf_000 defaultSyncResult_000)"
proof -
  have a: "\<exists>ev\<in>set (snd (synchronizeToSymitar envValid transportSyncFails defaultConfig)).
             isClientConstruction ev"
    by (simp add: sync_simps run_simps fixture_simps)
  have b: "\<exists>ev\<in>set (snd (synchronizeToSymitar_000 envValid transportOk_000 httpsConfig_000)).
             isClientConstruction ev"
    by (simp add: sync_simps run_simps fixture_simps)
  show ?thesis
    using teardown_exactly_once [of envValid transportSyncFails defaultConfig
        envValid transportOk_000 httpsConfig_000] a b
    by (simp add: tryCompletion_def transportSyncFails_def transportOk_000_def
          defaultConfig_def httpsConfig_000_def defaultConfig_000_def
          SynchronizeConfig.extend_def SynchronizeConfig_000.fields_def)
qed

text \<open>
  Claim C2 as stated fails: when \<open>end\<close> rejects, the rejection replaces a successful
  synchronize outcome (part_001, SSH) and a synchronize error (part_000, HTTPS) alike.
\<close>

theorem teardown_failure_masks_outcome:
  "fst (synchronizeToSymitar envValid transportEndFails defaultConfig) =
     Inl (Error ''Connection already closed'')
   \<and> syncOutcome transportEndFails = Inr defaultSyncResult
   \<and> fst (synchronizeToSymitar_000 envValid transportEndFails_000 httpsConfig_000) =
     Inl (Error ''Connection already closed'')
   \<and> syncOutcome transportEndFails_000 = Inl (Error ''Sync failed'')"
  by (simp add: sync_simps run_simps fixture_simps)


text \<open>
  Claim C7, as amended. In both revisions, for every configuration with connection
  type \<open>https\<close> and no \<open>symitarAppPort\<close>, \<open>synchronizeToSymitar\<close> fails and makes no
  call but those of the licence check, so no transport client is constructed: it
  fails with the error of the licence check when that fails, and with the
  configuration error \<open>symitar-app-port is required when using HTTPS connection\<close>
  when the licence check passed. \<open>synchronizeViaHTTPs\<close> itself throws that error
  before any call.
\<close>

theorem missing_port_fails_before_client:
  fixes c :: "'a SynchronizeConfig_scheme"
  shows
  "(connectionType c = https \<and> symitarAppPort c = None \<longrightarrow>
       fst (synchronizeToSymitar env w c) =
         (case fst (validateApiKey env (apiKey c)) of
            Inl e \<Rightarrow> Inl e
          | Inr u \<Rightarrow> Inl (Error ''symitar-app-port is required when using HTTPS connection''))
     \<and> snd (synchronizeToSymitar env w c) = snd (validateApiKey env (apiKey c))
     \<and> filter isClientConstruction (snd (synchronizeToSymitar env w c)) = []
     \<and> synchronizeViaHTTPs w c d m l =
         (Inl (Error ''symitar-app-port is required when using HTTPS connection''), []))
   \<and> (connectionType c0 = https \<and> symitarAppPort c0 = None \<longrightarrow>
       fst (synchronizeToSymitar_000 env0 w0 c0) =
         (case fst (validateApiKey env0 (apiKey c0)) of
            Inl e \<Rightarrow> Inl e
          | Inr u \<Rightarrow> Inl (Error ''symitar-app-port is required when using HTTPS connection''))
     \<and> snd (synchronizeToSymitar_000 env0 w0 c0) = snd (validateApiKey env0 (apiKey c0))
     \<and> filter isClientConstruction (snd (synchronizeToSymitar_000 env0 w0 c0)) = []
     \<and> synchronizeViaHTTPs_000 w0 c0 d m0 l0 =
         (Inl (Error ''symitar-app-port is required when using HTTPS connection''), []))"
proof (intro conjI impI)
  assume a: "connectionType c = https \<and> symitarAppPort c = None"
  then have run: "synchronizeToSymitar env w c =
      ((case fst (validateApiKey env (apiKey c)) of
          Inl e \<Rightarrow> Inl e
        | Inr u \<Rightarrow> Inl (Error ''symitar-app-port is required when using HTTPS connection'')),
       snd (validateApiKey env (apiKey c)))"
    by (simp add: no_port_001)
  show "fst (synchronizeToSymitar env w c) =
         (case fst (validateApiKey env (apiKey c)) of
            Inl e \<Rightarrow> Inl e
          | Inr u \<Rightarrow> Inl (Error ''symitar-app-port is required when using HTTPS connection''))"
    and "snd (synchronizeToSymitar env w c) = snd (validateApiKey env (apiKey c))"
    and "filter isClientConstruction (snd (synchronizeToSymitar env w c)) = []"
    unfolding run by (simp_all add: no_construction)
  from a show "synchronizeViaHTTPs w c d m l =
         (Inl (Error ''symitar-app-port is required when using HTTPS connection''), [])"
    by (simp add: synchronizeViaHTTPs_def)
next
  assume a: "connectionType c0 = https \<and> symitarAppPort c0 = None"
  then have run: "synchronizeToSymitar_000 env0 w0 c0 =
      ((case fst (validateApiKey env0 (apiKey c0)) of
          Inl e \<Rightarrow> Inl e
        | Inr u \<Rightarrow> Inl (Error ''symitar-app-port is required when using HTTPS connection'')),
       snd (validateApiKey env0 (apiKey c0)))"
    by (simp add: no_port_000)
  show "fst (synchronizeToSymitar_000 env0 w0 c0) =
         (case fst (validateApiKey env0 (apiKey c0)) of
            Inl e \<Rightarrow> Inl e
          | Inr u \<Rightarrow> Inl (Error ''symitar-app-port is required when using HTTPS connection''))"
    and "snd (synchronizeToSymitar_000 env0 w0 c0) = snd (validateApiKey env0 (apiKey c0))"
    and "filter isClientConstruction (snd (synchronizeToSymitar_000 env0 w0 c0)) = []"
    unfolding run by (simp_all add: no_construction)
  from a show "synchronizeViaHTTPs_000 w0 c0 d m0 l0 =
         (Inl (Error ''symitar-app-port is required when using HTTPS connection''), [])"
    by (simp add: synchronizeViaHTTPs_000_def)
qed

theorem missing_port_fails_before_client_witness:
  "synchronizeToSymitar envValid transportOk configWithoutPort =
     (Inl (Error ''symitar-app-port is required when using HTTPS connection''),
      [SetTimeout 30000,
       Fetch ''https://license.libum.io/subscriptionsByApiKey?product=poweron-pipelines''
         ''test-api-key'',
       ClearTimeout])
   \<and> synchronizeToSymitar_000 envValid transportOk_000 configWithoutPort_000 =
     (Inl (Error ''symitar-app-port is required when using HTTPS connection''),
      [SetTimeout 30000,
       Fetch ''https://license.libum.io/subscriptionsByApiKey?product=poweron-pipelines''
         ''test-api-key'',
       ClearTimeout])"
proof -
  have a: "connectionType configWithoutPort = https \<and> symitarAppPort configWithoutPort = None"
    by (simp add: fixture_simps)
  have b: "connectionType configWithoutPort_000 = https \<and> symitarAppPort configWithoutPort_000 = None"
    by (simp add: fixture_simps)
  have v: "validateApiKey envValid ''test-api-key'' =
     (Inr (),
      [SetTimeout 30000,
       Fetch ''https://license.libum.io/subscriptionsByApiKey?product=poweron-pipelines''
         ''test-api-key'',
       ClearTimeout])"
    by (simp add: run_simps fixture_simps)
  have k: "apiKey configWithoutPort = ''test-api-key''"
    "apiKey configWithoutPort_000 = ''test-api-key''"
    by (simp_all add: fixture_simps)
  show ?thesis
    using missing_port_fails_before_client [of configWithoutPort envValid transportOk
        REPWRITERSPECS PUSH "[]" configWithoutPort_000 envValid transportOk_000
        PUSH "SyncFilesOptions SFTP 5 [] []"] a b
    by (simp add: prod_eq_iff k v)
qed

text \<open>
  Claim C7 as stated fails: a configuration with connection type \<open>https\<close>, no port
  and an empty API key fails with the \<open>AuthenticationError\<close> of the licence check,
  not with a configuration error.
\<close>

theorem missing_port_with_missing_key:
  "fst (synchronizeToSymitar envValid transportOk configWithoutPortOrKey) =
     Inl (AuthenticationError ''PowerOn Pipelines API Key is missing'' [] [])
   \<and> connectionType configWithoutPortOrKey = https
   \<and> symitarAppPort configWithoutPortOrKey = None"
  by (simp add: sync_simps run_simps fixture_simps)

text \<open>
  Claim C10. In both revisions, in every result that \<open>synchronizeToSymitar\<close> returns,
  each count is the length of its list: \<open>filesDeployed\<close> of \<open>deployedFiles\<close>,
  \<open>filesDeleted\<close> of \<open>deletedFiles\<close>, \<open>filesInstalled\<close> of \<open>installedFiles\<close> and
  \<open>filesUninstalled\<close> of \<open>uninstalledFiles\<close>.
\<close>

theorem counts_match_lists:
  fixes c :: "'a SynchronizeConfig_scheme"
  shows
  "(fst (synchronizeToSymitar env w c) = Inr r \<longrightarrow>
       filesDeployed r = length (deployedFiles r) \<and> filesDeleted r = length (deletedFiles r)
     \<and> filesInstalled r = length (installedFiles r)
     \<and> filesUninstalled r = length (uninstalledFiles r))
   \<and> (fst (synchronizeToSymitar_000 env0 w0 c0) = Inr r0 \<longrightarrow>
       filesDeployed r0 = length (deployedFiles r0) \<and> filesDeleted r0 = length (deletedFiles r0)
     \<and> filesInstalled r0 = length (installedFiles r0)
     \<and> filesUninstalled r0 = length (uninstalledFiles r0))"
proof (intro conjI impI)
  assume "fst (synchronizeToSymitar env w c) = Inr r"
  from counts_001 [OF this] obtain out where r: "r = resultOf out" by blast
  show "filesDeployed r = length (deployedFiles r)"
    and "filesDeleted r = length (deletedFiles r)"
    and "filesInstalled r = length (installedFiles r)"
    and "filesUninstalled r = length (uninstalledFiles r)"
    unfolding r by (simp_all add: resultOf_def)
next
  assume "fst (synchronizeToSymitar_000 env0 w0 c0) = Inr r0"
  from counts_000 [OF this] obtain out where r: "r0 = resultOf_000 out" by blast
  show "filesDeployed r0 = length (deployedFiles r0)"
    and "filesDeleted r0 = length (deletedFiles r0)"
    and "filesInstalled r0 = length (installedFiles r0)"
    and "filesUninstalled r0 = length (uninstalledFiles r0)"
    unfolding r by (simp_all add: resultOf_000_def)
qed

theorem counts_match_lists_witness:
  "fst (synchronizeToSymitar envValid transportOk defaultConfig) =
     Inr \<lparr>filesDeployed = 2, filesDeleted = 1, filesInstalled = 1, filesUninstalled = 0,
          deployedFiles = [''FILE1.PO'', ''FILE2.PO''], deletedFiles = [''OLD.PO''],
          installedFiles = [''FILE1.PO''], uninstalledFiles = []\<rparr>
   \<and> fst (synchronizeToSymitar_000 envValid transportOk_000 defaultConfig_000) =
     Inr \<lparr>filesDeployed = 2, filesDeleted = 1, filesInstalled = 1, filesUninstalled = 0,
          deployedFiles = [''FILE1.PO'', ''FILE2.PO''], deletedFiles = [''OLD.PO''],
          installedFiles = [''FILE1.PO''], uninstalledFiles = []\<rparr>
   \<and> filesInstalled \<lparr>filesDeployed = 2, filesDeleted = 1, filesInstalled = 1, filesUninstalled = 0,
          deployedFiles = [''FILE1.PO'', ''FILE2.PO''], deletedFiles = [''OLD.PO''],
          installedFiles = [''FILE1.PO''], uninstalledFiles = []\<rparr>
       = length (installedFiles \<lparr>filesDeployed = 2, filesDeleted = 1, filesInstalled = 1,
          filesUninstalled = 0,
          deployedFiles = [''FILE1.PO'', ''FILE2.PO''], deletedFiles = [''OLD.PO''],
          installedFiles = [''FILE1.PO''], uninstalledFiles = []\<rparr>)"
proof -
  have a: "fst (synchronizeToSymitar envValid transportOk defaultConfig) =
     Inr \<lparr>filesDeployed = 2, filesDeleted = 1, filesInstalled = 1, filesUninstalled = 0,
          deployedFiles = [''FILE1.PO'', ''FILE2.PO''], deletedFiles = [''OLD.PO''],
          installedFiles = [''FILE1.PO''], uninstalledFiles = []\<rparr>"
    by (simp add: sync_simps run_simps fixture_simps)
  have b: "fst (synchronizeToSymitar_000 envValid transportOk_000 defaultConfig_000) =
     Inr \<lparr>filesDeployed = 2, filesDeleted = 1, filesInstalled = 1, filesUninstalled = 0,
          deployedFiles = [''FILE1.PO'', ''FILE2.PO''], deletedFiles = [''OLD.PO''],
          installedFiles = [''FILE1.PO''], uninstalledFiles = []\<rparr>"
    by (simp add: sync_simps run_simps fixture_simps)
  show ?thesis
    using counts_match_lists [of envValid transportOk defaultConfig
        "\<lparr>filesDeployed = 2, filesDeleted = 1, filesInstalled = 1, filesUninstalled = 0,
          deployedFiles = [''FILE1.PO'', ''FILE2.PO''], deletedFiles = [''OLD.PO''],
          installedFiles = [''FILE1.PO''], uninstalledFiles = []\<rparr>"
        envValid transportOk_000 defaultConfig_000
        "\<lparr>filesDeployed = 2, filesDeleted = 1, filesInstalled = 1, filesUninstalled = 0,
          deployedFiles = [''FILE1.PO'', ''FILE2.PO''], deletedFiles = [''OLD.PO''],
          installedFiles = [''FILE1.PO''], uninstalledFiles = []\<rparr>"] a b
    by simp
qed


end
